theory Spec2Isabelle
  imports Complex_Main
begin

section \<open>The storefront models of fairtest: products, competitors, zip codes\<close>

text \<open>
  The development embeds \<^verbatim>\<open>testframework/models.py\<close>: the three Django models and the
  one computation they carry, \<^verbatim>\<open>Product.adjusted_price\<close>.  Python exceptions are values
  of a sum type, the two database tables are lists in the order in which a query set
  yields their rows, and Python's \<^verbatim>\<open>Decimal\<close> is a sign, a coefficient and an exponent.
\<close>

subsection \<open>Exceptions\<close>

text \<open>
  \<^verbatim>\<open>IndexError\<close> is what indexing an empty query set with \<^verbatim>\<open>[0]\<close> raises, \<^verbatim>\<open>KeyError\<close>
  what \<^verbatim>\<open>request.GET['zip']\<close> raises for a missing key, and \<^verbatim>\<open>ValueError\<close> what the
  distance of the geopy library raises when its iteration does not converge or a
  coordinate is out of range.  The specification calls the failure of a zip lookup
  \<^verbatim>\<open>NotFoundError\<close>; in the code it is the \<^verbatim>\<open>IndexError\<close> of the first-row access.
\<close>

datatype error = IndexError | KeyError | ValueError

subsection \<open>Python floats and decimals\<close>

text \<open>
  A finite Python float is a dyadic rational.  \<open>(n, k)\<close> stands for \<open>n / 2 ^ k\<close> in lowest
  terms, which is what \<^verbatim>\<open>float.as_integer_ratio\<close> returns (the denominator is \<open>2 ^ k\<close>).
\<close>

type_synonym pyfloat = "int \<times> nat"

definition float_value :: "pyfloat \<Rightarrow> rat" where
  "float_value f = of_int (fst f) / 2 ^ snd f"

text \<open>The literal \<^verbatim>\<open>1.0\<close>.\<close>

definition float_1_0 :: pyfloat where
  "float_1_0 = (1, 0)"

text \<open>
  The literal \<^verbatim>\<open>0.8\<close>: the double nearest to four fifths, \<^verbatim>\<open>0x3FE999999999999A\<close>,
  that is \<open>3602879701896397 / 2 ^ 52\<close>.
\<close>

definition float_0_8 :: pyfloat where
  "float_0_8 = (3602879701896397, 52)"

text \<open>
  A finite \<^verbatim>\<open>Decimal\<close>: the number \<open>(-1) ^ sign * coefficient * 10 ^ exponent\<close>.
\<close>

record dec =
  dsign :: bool
  dcoeff :: nat
  dexp :: int

definition dec_value :: "dec \<Rightarrow> rat" where
  "dec_value d =
     (if dsign d then - 1 else 1) * of_nat (dcoeff d) *
     (if 0 \<le> dexp d then 10 ^ nat (dexp d) else 1 / 10 ^ nat (- dexp d))"

text \<open>The number of decimal digits of a coefficient (the length of \<^verbatim>\<open>_int\<close>; one for zero).\<close>

fun ndigits :: "nat \<Rightarrow> nat" where
  "ndigits n = (if n < 10 then 1 else Suc (ndigits (n div 10)))"

declare ndigits.simps [simp del]

text \<open>
  \<^verbatim>\<open>Decimal(f)\<close> for a float \<open>f\<close> converts exactly (\<^verbatim>\<open>Decimal.from_float\<close>): with
  \<open>n / 2 ^ k\<close> the integer ratio of \<open>f\<close>, the coefficient is \<open>n * 5 ^ k\<close> and the exponent
  \<open>- k\<close>.
\<close>

definition Decimal_from_float :: "pyfloat \<Rightarrow> dec" where
  "Decimal_from_float f =
     \<lparr>dsign = (fst f < 0), dcoeff = nat \<bar>fst f\<bar> * 5 ^ snd f, dexp = - int (snd f)\<rparr>"

text \<open>
  The precision of the default decimal context, under which the models run, and its
  rounding mode \<^verbatim>\<open>ROUND_HALF_EVEN\<close>.
\<close>

definition prec :: nat where
  "prec = 28"

text \<open>
  \<^verbatim>\<open>Decimal._fix\<close>: a coefficient of more than \<open>prec\<close> digits is cut to its leading
  \<open>prec\<close> digits, rounded half to even on what is dropped; a carry into a further digit
  drops one more.  The exponent limits of the context (\<open>\<plusminus> 999999\<close>) are far from every
  exponent that a price and a rate produce and are not part of the model.
\<close>

definition dec_fix :: "dec \<Rightarrow> dec" where
  "dec_fix d =
     (if dcoeff d = 0 then d
      else if ndigits (dcoeff d) \<le> prec then d
      else
        let drop = ndigits (dcoeff d) - prec;
            q = dcoeff d div 10 ^ drop;
            r = dcoeff d mod 10 ^ drop;
            half = 5 * 10 ^ (drop - 1);
            q' = (if half < r \<or> (r = half \<and> q mod 2 = 1) then q + 1 else q);
            exp_min = dexp d + int drop
        in if prec < ndigits q'
           then d\<lparr>dcoeff := q' div 10, dexp := exp_min + 1\<rparr>
           else d\<lparr>dcoeff := q', dexp := exp_min\<rparr>)"

text \<open>
  \<^verbatim>\<open>Decimal.__mul__\<close>: signs are xor-ed, coefficients multiplied, exponents added, and
  the result is fixed to the context.
\<close>

definition dec_mul :: "dec \<Rightarrow> dec \<Rightarrow> dec" where
  "dec_mul a b =
     dec_fix \<lparr>dsign = (dsign a \<noteq> dsign b), dcoeff = dcoeff a * dcoeff b,
              dexp = dexp a + dexp b\<rparr>"

subsection \<open>The models\<close>

text \<open>
  \<^verbatim>\<open>Product\<close>: \<^verbatim>\<open>name\<close> and \<^verbatim>\<open>baseprice\<close>, a \<^verbatim>\<open>DecimalField\<close> with \<^verbatim>\<open>max_digits=15\<close> and
  \<^verbatim>\<open>decimal_places=2\<close>.
\<close>

record product =
  product_name :: string
  baseprice :: dec

definition max_digits :: nat where
  "max_digits = 15"

definition decimal_places :: nat where
  "decimal_places = 2"

definition base_price :: "product \<Rightarrow> dec" where
  "base_price self = baseprice self"

text \<open>
  A base price that the field can hold: at most \<open>max_digits\<close> digits, of which at most
  \<open>decimal_places\<close> after the point.
\<close>

definition fits_field :: "dec \<Rightarrow> bool" where
  "fits_field d \<longleftrightarrow>
     - int decimal_places \<le> dexp d \<and>
     (if 0 \<le> dexp d
      then (if dcoeff d = 0 then 1 else ndigits (dcoeff d) + nat (dexp d)) \<le> max_digits
      else ndigits (dcoeff d) \<le> max_digits)"

text \<open>\<^verbatim>\<open>Competitor\<close>: \<^verbatim>\<open>name\<close>, \<^verbatim>\<open>address\<close> and \<^verbatim>\<open>zip\<close>.\<close>

record competitor =
  competitor_name :: string
  address :: string
  competitor_zip :: string

text \<open>
  \<^verbatim>\<open>Zipcode\<close>: \<^verbatim>\<open>zip\<close>, \<^verbatim>\<open>city\<close>, \<^verbatim>\<open>state\<close> and the two float fields \<^verbatim>\<open>la\<close> and \<^verbatim>\<open>lo\<close>.
  The coordinates only travel to the distance function, so they are kept as the
  rationals that the floats are.
\<close>

type_synonym coordinate = "rat \<times> rat"

record zipcode =
  zipcode_zip :: string
  city :: string
  state :: string
  la :: rat
  lo :: rat

definition coordinate :: "zipcode \<Rightarrow> coordinate" where
  "coordinate self = (la self, lo self)"

subsection \<open>The database and the request\<close>

text \<open>
  The two tables that \<^verbatim>\<open>adjusted_price\<close> reads, each as the list of its rows in the
  order in which an unordered query set yields them.
\<close>

record database =
  zipcodes :: "zipcode list"
  competitors :: "competitor list"

text \<open>\<^verbatim>\<open>Zipcode.objects.filter(zip=z)\<close>: the rows with that zip, in table order.\<close>

definition filter_zip :: "zipcode list \<Rightarrow> string \<Rightarrow> zipcode list" where
  "filter_zip rows z = filter (\<lambda>r. zipcode_zip r = z) rows"

text \<open>Indexing a query set with \<^verbatim>\<open>[0]\<close>: the first row, or \<^verbatim>\<open>IndexError\<close> when there is none.\<close>

definition first_row :: "'a list \<Rightarrow> error + 'a" where
  "first_row rows = (case rows of [] \<Rightarrow> Inl IndexError | r # _ \<Rightarrow> Inr r)"

text \<open>The request: its \<^verbatim>\<open>GET\<close> dictionary of query parameters.\<close>

record request =
  GET :: "string \<rightharpoonup> string"

text \<open>\<^verbatim>\<open>GET.get(key, dflt)\<close> and \<^verbatim>\<open>GET[key]\<close>.\<close>

definition GET_get :: "(string \<rightharpoonup> string) \<Rightarrow> string \<Rightarrow> string \<Rightarrow> string" where
  "GET_get d key dflt = (case d key of None \<Rightarrow> dflt | Some v \<Rightarrow> v)"

definition GET_getitem :: "(string \<rightharpoonup> string) \<Rightarrow> string \<Rightarrow> error + string" where
  "GET_getitem d key = (case d key of None \<Rightarrow> Inl KeyError | Some v \<Rightarrow> Inr v)"

subsection \<open>The price adjustment\<close>

text \<open>
  The geodesic distance in miles, \<^verbatim>\<open>vincenty(co, cz).miles\<close>, comes from the geopy
  library and is a parameter \<open>miles\<close> of the model: a function from two coordinates to
  a number of miles, or to the exception that the library raises instead of returning.
  An exception of the distance leaves the loop and \<^verbatim>\<open>adjusted_price\<close> as it does in the
  code, where nothing catches it.

  The loop over \<^verbatim>\<open>Competitor.objects.all()\<close>.  Its body looks up the competitor's zip
  (the first-row access may raise), sets the rate to \<^verbatim>\<open>0.8\<close> when the distance is below
  five miles, and then executes \<^verbatim>\<open>break\<close>: the statement stands after the \<^verbatim>\<open>if\<close>, at the
  level of the loop body, so the remaining competitors are not visited.
\<close>

fun competitor_loop ::
  "(coordinate \<Rightarrow> coordinate \<Rightarrow> error + rat) \<Rightarrow> zipcode list \<Rightarrow> coordinate \<Rightarrow>
   competitor list \<Rightarrow> pyfloat \<Rightarrow> error + pyfloat" where
  "competitor_loop miles rows co [] rate = Inr rate"
| "competitor_loop miles rows co (c # cs) rate =
     (case first_row (filter_zip rows (competitor_zip c)) of
        Inl e \<Rightarrow> Inl e
      | Inr r \<Rightarrow>
          let cz = coordinate r in
          (case miles co cz of
             Inl e \<Rightarrow> Inl e
           | Inr d \<Rightarrow>
               let rate' = (if d < 5 then float_0_8 else rate)
               in Inr rate'))"

text \<open>
  \<^verbatim>\<open>Product.adjusted_price\<close>.  An absent or empty \<^verbatim>\<open>zip\<close> parameter is falsy and leaves
  the rate at \<^verbatim>\<open>1.0\<close>; otherwise the shopper's zip is resolved (the first-row access may
  raise) and the loop runs.  The result is \<^verbatim>\<open>self.baseprice * Decimal(rate)\<close>.
\<close>

definition adjusted_price ::
  "(coordinate \<Rightarrow> coordinate \<Rightarrow> error + rat) \<Rightarrow> database \<Rightarrow> product \<Rightarrow> request \<Rightarrow>
   error + dec" where
  "adjusted_price miles db self request =
     (let rate = float_1_0 in
      if GET_get (GET request) ''zip'' '''' \<noteq> '''' then
        (case GET_getitem (GET request) ''zip'' of
           Inl e \<Rightarrow> Inl e
         | Inr z \<Rightarrow>
             (case first_row (filter_zip (zipcodes db) z) of
                Inl e \<Rightarrow> Inl e
              | Inr r \<Rightarrow>
                  (case competitor_loop miles (zipcodes db) (coordinate r) (competitors db) rate of
                     Inl e \<Rightarrow> Inl e
                   | Inr rate' \<Rightarrow> Inr (dec_mul (baseprice self) (Decimal_from_float rate')))))
      else Inr (dec_mul (baseprice self) (Decimal_from_float rate)))"

subsection \<open>Sample data\<close>

text \<open>
  Concrete rows for evaluating the model.  \<open>taxicab_miles\<close> stands in for the library's
  distance at these inputs: sixty-nine miles for each degree of latitude and of
  longitude, always returned.  Like the geodesic distance it is zero between equal
  coordinates and far above five miles between San Francisco and New York; the
  evaluations below use nothing else of it, except at \<open>edge_row\<close>, which is placed at
  five miles exactly.  \<open>failing_miles\<close> is a distance that raises on every pair of
  coordinates.
\<close>

definition taxicab_miles :: "coordinate \<Rightarrow> coordinate \<Rightarrow> error + rat" where
  "taxicab_miles a b = Inr (69 * (\<bar>fst a - fst b\<bar> + \<bar>snd a - snd b\<bar>))"

definition failing_miles :: "coordinate \<Rightarrow> coordinate \<Rightarrow> error + rat" where
  "failing_miles a b = Inl ValueError"

definition sf_row :: zipcode where
  "sf_row = \<lparr>zipcode_zip = ''94103'', city = ''San Francisco'', state = ''CA'',
              la = 3777 / 100, lo = - 12241 / 100\<rparr>"

definition ny_row :: zipcode where
  "ny_row = \<lparr>zipcode_zip = ''10007'', city = ''New York'', state = ''NY'',
              la = 4071 / 100, lo = - 7400 / 100\<rparr>"

text \<open>A second row for the zip of \<open>sf_row\<close>, with the coordinates of New York.\<close>

definition sf_row_again :: zipcode where
  "sf_row_again = \<lparr>zipcode_zip = ''94103'', city = ''Elsewhere'', state = ''NY'',
                    la = 4071 / 100, lo = - 7400 / 100\<rparr>"

text \<open>A row at five miles from \<open>sf_row\<close> in the stand-in distance.\<close>

definition edge_row :: zipcode where
  "edge_row = \<lparr>zipcode_zip = ''94999'', city = ''Edge'', state = ''CA'',
                la = 3777 / 100 + 5 / 69, lo = - 12241 / 100\<rparr>"

definition sf_shop :: competitor where
  "sf_shop = \<lparr>competitor_name = ''Bay Goods'', address = ''1 Market St'',
               competitor_zip = ''94103''\<rparr>"

definition ny_shop :: competitor where
  "ny_shop = \<lparr>competitor_name = ''Hudson Goods'', address = ''1 Broadway'',
               competitor_zip = ''10007''\<rparr>"

definition edge_shop :: competitor where
  "edge_shop = \<lparr>competitor_name = ''Edge Goods'', address = ''5 Mile Rd'',
                 competitor_zip = ''94999''\<rparr>"

text \<open>A competitor whose zip has no row in the tables below.\<close>

definition lost_shop :: competitor where
  "lost_shop = \<lparr>competitor_name = ''Lost Goods'', address = ''Nowhere'',
                 competitor_zip = ''00000''\<rparr>"

text \<open>A product at \<^verbatim>\<open>Decimal('100.00')\<close>.\<close>

definition widget :: product where
  "widget = \<lparr>product_name = ''Widget'',
              baseprice = \<lparr>dsign = False, dcoeff = 10000, dexp = - 2\<rparr>\<rparr>"

text \<open>The request \<^verbatim>\<open>?zip=z\<close>, and the request without parameters.\<close>

definition zip_request :: "string \<Rightarrow> request" where
  "zip_request z = \<lparr>GET = [''zip'' \<mapsto> z]\<rparr>"

definition plain_request :: request where
  "plain_request = \<lparr>GET = Map.empty\<rparr>"

lemmas sample_defs =
  taxicab_miles_def failing_miles_def sf_row_def ny_row_def sf_row_again_def edge_row_def sf_shop_def
  ny_shop_def edge_shop_def lost_shop_def widget_def zip_request_def plain_request_def

lemmas lookup_defs =
  GET_get_def GET_getitem_def first_row_def filter_zip_def coordinate_def

lemmas decimal_defs =
  dec_mul_def dec_fix_def Decimal_from_float_def float_1_0_def float_0_8_def prec_def
  ndigits.simps

section \<open>Properties\<close>

subsection \<open>Decimal multiplication by the two rates\<close>

lemma Decimal_1_0: "Decimal_from_float float_1_0 = \<lparr>dsign = False, dcoeff = 1, dexp = 0\<rparr>"
  by (simp add: Decimal_from_float_def float_1_0_def)

lemma Decimal_0_8:
  "Decimal_from_float float_0_8 =
     \<lparr>dsign = False, dcoeff = 8000000000000000444089209850062616169452667236328125,
      dexp = - 52\<rparr>"
  by (simp add: Decimal_from_float_def float_0_8_def)

lemma dec_mul_1_0:
  assumes "ndigits (dcoeff d) \<le> prec"
  shows "dec_mul d (Decimal_from_float float_1_0) = d"
  using assms by (simp add: dec_mul_def dec_fix_def Decimal_1_0)

lemma fits_field_prec: "fits_field d \<Longrightarrow> ndigits (dcoeff d) \<le> prec"
  by (auto simp: fits_field_def max_digits_def prec_def ndigits.simps [of 0]
      split: if_splits)

lemma widget_discounted:
  "dec_mul (baseprice widget) (Decimal_from_float float_0_8) =
     \<lparr>dsign = False, dcoeff = 8000000000000000444089209850, dexp = - 26\<rparr>"
  by (simp add: decimal_defs widget_def Let_def)

lemma widget_fits: "fits_field (baseprice widget)"
  by (simp add: fits_field_def widget_def decimal_places_def max_digits_def ndigits.simps)

subsection \<open>Lookups\<close>

lemma first_row_later_duplicate:
  assumes "\<exists>r \<in> set pre. zipcode_zip r = zipcode_zip d"
  shows "first_row (filter_zip (pre @ d # post) z) = first_row (filter_zip (pre @ post) z)"
proof (cases "zipcode_zip d = z")
  case False
  then show ?thesis by (simp add: filter_zip_def)
next
  case True
  with assms obtain r where "r \<in> set pre" "zipcode_zip r = z" by auto
  then have "filter (\<lambda>r. zipcode_zip r = z) pre \<noteq> []"
    by (auto simp: filter_empty_conv)
  then obtain x xs where "filter (\<lambda>r. zipcode_zip r = z) pre = x # xs"
    by (cases "filter (\<lambda>r. zipcode_zip r = z) pre") auto
  then show ?thesis by (simp add: filter_zip_def first_row_def)
qed

lemma competitor_loop_later_duplicate:
  assumes "\<exists>r \<in> set pre. zipcode_zip r = zipcode_zip d"
  shows "competitor_loop miles (pre @ d # post) co cs rate =
         competitor_loop miles (pre @ post) co cs rate"
  using first_row_later_duplicate [OF assms] by (cases cs) simp_all

lemma first_row_first_match:
  assumes "\<forall>x \<in> set pre. zipcode_zip x \<noteq> zipcode_zip r"
  shows "first_row (filter_zip (pre @ r # post) (zipcode_zip r)) = Inr r"
proof -
  have "filter (\<lambda>x. zipcode_zip x = zipcode_zip r) pre = []"
    using assms by (simp add: filter_empty_conv)
  then show ?thesis
    by (simp add: filter_zip_def first_row_def)
qed

subsection \<open>Exceptions of the distance\<close>

text \<open>
  An exception that the distance raises on the competitor under examination is the
  result of \<^verbatim>\<open>adjusted_price\<close>.
\<close>

lemma distance_error_propagates:
  assumes "GET request ''zip'' = Some z" and "z \<noteq> []"
    and "first_row (filter_zip (zipcodes db) z) = Inr r"
    and "competitors db = c # cs"
    and "first_row (filter_zip (zipcodes db) (competitor_zip c)) = Inr cr"
    and "miles (coordinate r) (coordinate cr) = Inl e"
  shows "adjusted_price miles db self request = Inl e"
  using assms by (simp add: adjusted_price_def GET_get_def GET_getitem_def)

lemma failing_miles_raises:
  "adjusted_price failing_miles \<lparr>zipcodes = [sf_row, ny_row], competitors = [ny_shop]\<rparr>
     widget (zip_request ''94103'') = Inl ValueError"
  by (simp add: adjusted_price_def lookup_defs sample_defs)

section \<open>The claims\<close>

subsection \<open>The scan over the competitors\<close>

text \<open>
  C1.  The claim: the scan runs over the competitors in iteration order and stops only at
  the first one that is strictly less than five miles away; a competitor before it does
  not end the scan.  In the code the \<^verbatim>\<open>break\<close> ends the loop after the first competitor
  whatever its distance.  With the shopper in San Francisco and the competitors
  \<open>[ny_shop, sf_shop]\<close> the loop leaves the rate at \<^verbatim>\<open>1.0\<close>, although \<open>sf_shop\<close>, scanned
  on its own, is at distance zero and sets the rate to \<^verbatim>\<open>0.8\<close>.
\<close>

theorem scan_ends_after_far_competitor:
  "competitor_loop taxicab_miles [sf_row, ny_row] (coordinate sf_row) [ny_shop, sf_shop]
     float_1_0 = Inr float_1_0 \<and>
   competitor_loop taxicab_miles [sf_row, ny_row] (coordinate sf_row) [sf_shop]
     float_1_0 = Inr float_0_8 \<and>
   float_0_8 \<noteq> float_1_0"
  by (simp add: lookup_defs sample_defs float_1_0_def float_0_8_def)

text \<open>
  C2.  The claim: when at least one competitor with a resolvable zip is strictly less than
  five miles from the shopper, the adjusted price is the base price times 0.8.  At the
  same input as above the competitor \<open>sf_shop\<close> resolves and is at distance zero, and the
  code returns the base price \<^verbatim>\<open>100.00\<close>.
\<close>

theorem near_second_competitor_full_price:
  "adjusted_price taxicab_miles
     \<lparr>zipcodes = [sf_row, ny_row], competitors = [ny_shop, sf_shop]\<rparr>
     widget (zip_request ''94103'') = Inr (base_price widget) \<and>
   first_row (filter_zip [sf_row, ny_row] (competitor_zip sf_shop)) = Inr sf_row \<and>
   taxicab_miles (coordinate sf_row) (coordinate sf_row) = Inr 0 \<and>
   dec_value (base_price widget) = 100"
  by (simp add: adjusted_price_def base_price_def dec_value_def lookup_defs sample_defs
      decimal_defs)

subsection \<open>No shopper zip, no competitor in range\<close>

text \<open>
  C3.  When the \<^verbatim>\<open>zip\<close> parameter is absent or empty, \<^verbatim>\<open>adjusted_price\<close> returns the base
  price as it is, whatever the tables hold.  The base price is one that the field of
  the model can hold.
\<close>

theorem no_zip_base_price:
  assumes "fits_field (baseprice self)"
    and "GET request ''zip'' = None \<or> GET request ''zip'' = Some []"
  shows "adjusted_price miles db self request = Inr (base_price self)"
proof -
  have "GET_get (GET request) ''zip'' [] = []"
    using assms(2) by (auto simp: GET_get_def)
  then show ?thesis
    by (simp add: adjusted_price_def base_price_def dec_mul_1_0 fits_field_prec [OF assms(1)])
qed

theorem no_zip_base_price_witness:
  "fits_field (baseprice widget) \<and>
   GET plain_request ''zip'' = None \<and>
   adjusted_price taxicab_miles \<lparr>zipcodes = [], competitors = [lost_shop]\<rparr> widget
     plain_request = Inr (base_price widget)"
proof -
  have f: "fits_field (baseprice widget)"
    by (rule widget_fits)
  have g: "GET plain_request ''zip'' = None \<or> GET plain_request ''zip'' = Some []"
    by (simp add: plain_request_def)
  have a: "GET plain_request ''zip'' = None"
    by (simp add: plain_request_def)
  show ?thesis
    using f a no_zip_base_price [OF f g] by simp
qed

text \<open>
  C4.  The claim: when the shopper's zip resolves and no competitor lies within five miles
  of the shopper, \<^verbatim>\<open>adjusted_price\<close> returns the base price.  With \<open>lost_shop\<close> as the only
  competitor no competitor lies within five miles (its zip has no row, so it has no
  coordinates at all), and the code returns no price: the first-row access of the
  competitor's lookup raises.
\<close>

theorem unlocated_competitor_no_base_price:
  "first_row (filter_zip [sf_row, ny_row] ''94103'') = Inr sf_row \<and>
   first_row (filter_zip [sf_row, ny_row] (competitor_zip lost_shop)) = Inl IndexError \<and>
   fits_field (baseprice widget) \<and>
   adjusted_price taxicab_miles \<lparr>zipcodes = [sf_row, ny_row], competitors = [lost_shop]\<rparr>
     widget (zip_request ''94103'') = Inl IndexError \<and>
   adjusted_price taxicab_miles \<lparr>zipcodes = [sf_row, ny_row], competitors = [lost_shop]\<rparr>
     widget (zip_request ''94103'') \<noteq> Inr (base_price widget)"
proof -
  have "adjusted_price taxicab_miles
          \<lparr>zipcodes = [sf_row, ny_row], competitors = [lost_shop]\<rparr>
          widget (zip_request ''94103'') = Inl IndexError"
    by (simp add: adjusted_price_def lookup_defs sample_defs)
  moreover have "first_row (filter_zip [sf_row, ny_row] ''94103'') = Inr sf_row"
    by (simp add: lookup_defs sample_defs)
  moreover have
    "first_row (filter_zip [sf_row, ny_row] (competitor_zip lost_shop)) = Inl IndexError"
    by (simp add: lookup_defs sample_defs)
  ultimately show ?thesis
    using widget_fits by simp
qed

text \<open>
  C4, as the code has it: when the shopper's zip resolves and for every competitor the
  zip resolves and the distance is returned and is not less than five miles, the rate
  stays at \<^verbatim>\<open>1.0\<close> and \<^verbatim>\<open>adjusted_price\<close> returns the base price.
\<close>

theorem no_competitor_in_range_base_price:
  assumes "fits_field (baseprice self)"
    and "GET request ''zip'' = Some z" and "z \<noteq> []"
    and "first_row (filter_zip (zipcodes db) z) = Inr r"
    and "\<forall>c \<in> set (competitors db). \<exists>cr d.
           first_row (filter_zip (zipcodes db) (competitor_zip c)) = Inr cr \<and>
           miles (coordinate r) (coordinate cr) = Inr d \<and> \<not> d < 5"
  shows "adjusted_price miles db self request = Inr (base_price self)"
proof -
  have loop: "competitor_loop miles (zipcodes db) (coordinate r) (competitors db) float_1_0
                = Inr float_1_0"
  proof (cases "competitors db")
    case Nil
    then show ?thesis by simp
  next
    case (Cons c cs)
    with assms(5) obtain cr d where
      "first_row (filter_zip (zipcodes db) (competitor_zip c)) = Inr cr"
      "miles (coordinate r) (coordinate cr) = Inr d" "\<not> d < 5"
      by auto
    with Cons show ?thesis by simp
  qed
  show ?thesis
    using assms(2-4) loop
    by (simp add: adjusted_price_def base_price_def GET_get_def GET_getitem_def
        dec_mul_1_0 fits_field_prec [OF assms(1)])
qed

theorem no_competitor_in_range_base_price_witness:
  "fits_field (baseprice widget) \<and>
   GET (zip_request ''94103'') ''zip'' = Some ''94103'' \<and>
   first_row (filter_zip [sf_row, ny_row] ''94103'') = Inr sf_row \<and>
   first_row (filter_zip [sf_row, ny_row] (competitor_zip ny_shop)) = Inr ny_row \<and>
   taxicab_miles (coordinate sf_row) (coordinate ny_row) = Inr (70863 / 20) \<and>
   adjusted_price taxicab_miles \<lparr>zipcodes = [sf_row, ny_row], competitors = [ny_shop]\<rparr>
     widget (zip_request ''94103'') = Inr (base_price widget)"
proof -
  let ?db = "\<lparr>zipcodes = [sf_row, ny_row], competitors = [ny_shop]\<rparr>"
  have f: "fits_field (baseprice widget)"
    by (rule widget_fits)
  have g: "GET (zip_request ''94103'') ''zip'' = Some ''94103''"
    by (simp add: zip_request_def)
  have n: "''94103'' \<noteq> []"
    by simp
  have s: "first_row (filter_zip (zipcodes ?db) ''94103'') = Inr sf_row"
    by (simp add: lookup_defs sample_defs)
  have l: "first_row (filter_zip [sf_row, ny_row] (competitor_zip ny_shop)) = Inr ny_row"
    by (simp add: lookup_defs sample_defs)
  have far: "taxicab_miles (coordinate sf_row) (coordinate ny_row) = Inr (70863 / 20)"
    by (simp add: lookup_defs sample_defs)
  have c: "\<forall>c \<in> set (competitors ?db). \<exists>cr d.
             first_row (filter_zip (zipcodes ?db) (competitor_zip c)) = Inr cr \<and>
             taxicab_miles (coordinate sf_row) (coordinate cr) = Inr d \<and> \<not> d < 5"
  proof (intro ballI)
    fix c
    assume "c \<in> set (competitors ?db)"
    then have "c = ny_shop"
      by simp
    with l far show "\<exists>cr d.
        first_row (filter_zip (zipcodes ?db) (competitor_zip c)) = Inr cr \<and>
        taxicab_miles (coordinate sf_row) (coordinate cr) = Inr d \<and> \<not> d < 5"
      by (intro exI [of _ ny_row] exI [of _ "70863 / 20"]) simp
  qed
  show ?thesis
    using f g s l far
      no_competitor_in_range_base_price [where miles = taxicab_miles and db = ?db, OF f g n s c]
    by simp
qed

subsection \<open>The threshold\<close>

text \<open>
  C5.  The comparison with five miles is strict: a competitor that the loop examines and
  whose distance is returned as five miles exactly leaves the rate as it was, so the
  rate \<^verbatim>\<open>0.8\<close> is not set.
\<close>

theorem exactly_five_miles_keeps_rate:
  assumes "first_row (filter_zip rows (competitor_zip c)) = Inr cr"
    and "miles co (coordinate cr) = Inr 5"
  shows "competitor_loop miles rows co (c # cs) rate = Inr rate"
  using assms by simp

theorem exactly_five_miles_keeps_rate_witness:
  "first_row (filter_zip [sf_row, edge_row] (competitor_zip edge_shop)) = Inr edge_row \<and>
   taxicab_miles (coordinate sf_row) (coordinate edge_row) = Inr 5 \<and>
   competitor_loop taxicab_miles [sf_row, edge_row] (coordinate sf_row) [edge_shop, sf_shop]
     float_1_0 = Inr float_1_0"
proof -
  have l: "first_row (filter_zip [sf_row, edge_row] (competitor_zip edge_shop)) = Inr edge_row"
    by (simp add: lookup_defs sample_defs)
  have m: "taxicab_miles (coordinate sf_row) (coordinate edge_row) = Inr 5"
    by (simp add: lookup_defs sample_defs)
  show ?thesis
    using l m exactly_five_miles_keeps_rate [where miles = taxicab_miles, OF l m]
    by simp
qed

subsection \<open>The monetary result\<close>

text \<open>
  C6.  The claim: the returned amount is computed in exact decimal arithmetic, no binary
  floating-point value enters it, and the discounted result is the exact decimal product
  of the base price and eight tenths.  In the code the rate is the float \<^verbatim>\<open>0.8\<close>, which
  \<^verbatim>\<open>Decimal(rate)\<close> converts digit for digit.  For the product at \<^verbatim>\<open>100.00\<close> with a
  competitor at the shopper's own coordinates the result is
  \<^verbatim>\<open>Decimal('80.00000000000000444089209850')\<close>, not eighty.
\<close>

theorem discounted_price_carries_float_error:
  "adjusted_price taxicab_miles \<lparr>zipcodes = [sf_row, ny_row], competitors = [sf_shop]\<rparr>
     widget (zip_request ''94103'') =
     Inr \<lparr>dsign = False, dcoeff = 8000000000000000444089209850, dexp = - 26\<rparr> \<and>
   dec_value \<lparr>dsign = False, dcoeff = 8000000000000000444089209850, dexp = - 26\<rparr> \<noteq>
     dec_value (base_price widget) * (8 / 10)"
proof -
  have loop: "competitor_loop taxicab_miles [sf_row, ny_row] (coordinate sf_row) [sf_shop]
                float_1_0 = Inr float_0_8"
    by (simp add: lookup_defs sample_defs)
  have price: "adjusted_price taxicab_miles
                 \<lparr>zipcodes = [sf_row, ny_row], competitors = [sf_shop]\<rparr>
                 widget (zip_request ''94103'') =
               Inr (dec_mul (baseprice widget) (Decimal_from_float float_0_8))"
    using loop
    by (simp add: adjusted_price_def GET_get_def GET_getitem_def first_row_def filter_zip_def
        zip_request_def sf_row_def ny_row_def)
  have "dec_value \<lparr>dsign = False, dcoeff = 8000000000000000444089209850, dexp = - 26\<rparr> \<noteq>
          dec_value (base_price widget) * (8 / 10)"
    by (simp add: dec_value_def base_price_def widget_def)
  with price show ?thesis
    by (simp add: widget_discounted)
qed

subsection \<open>Zips without a row\<close>

text \<open>
  C7.  The claim: a competitor whose zip has no row in the zip table is skipped, and the
  scan goes on to a price.  In the code the first-row access on the empty query set
  raises: with \<open>lost_shop\<close> ahead of \<open>sf_shop\<close> no price is produced, while without
  \<open>lost_shop\<close> there is one.
\<close>

theorem unmapped_competitor_not_skipped:
  "adjusted_price taxicab_miles
     \<lparr>zipcodes = [sf_row, ny_row], competitors = [lost_shop, sf_shop]\<rparr>
     widget (zip_request ''94103'') = Inl IndexError \<and>
   filter_zip [sf_row, ny_row] (competitor_zip lost_shop) = [] \<and>
   adjusted_price taxicab_miles \<lparr>zipcodes = [sf_row, ny_row], competitors = [sf_shop]\<rparr>
     widget (zip_request ''94103'') =
     Inr (dec_mul (baseprice widget) (Decimal_from_float float_0_8))"
  by (simp add: adjusted_price_def lookup_defs sample_defs float_1_0_def)

text \<open>
  C7, as the code has it: when the shopper's zip resolves and the zip of the competitor
  that the loop examines has no row, the computation ends with \<^verbatim>\<open>IndexError\<close> and returns
  no price.
\<close>

theorem unmapped_competitor_raises:
  assumes "GET request ''zip'' = Some z" and "z \<noteq> []"
    and "first_row (filter_zip (zipcodes db) z) = Inr r"
    and "competitors db = c # cs"
    and "filter_zip (zipcodes db) (competitor_zip c) = []"
  shows "adjusted_price miles db self request = Inl IndexError"
  using assms
  by (simp add: adjusted_price_def GET_get_def GET_getitem_def first_row_def)

theorem unmapped_competitor_raises_witness:
  "GET (zip_request ''94103'') ''zip'' = Some ''94103'' \<and>
   first_row (filter_zip [sf_row, ny_row] ''94103'') = Inr sf_row \<and>
   filter_zip [sf_row, ny_row] (competitor_zip lost_shop) = [] \<and>
   adjusted_price taxicab_miles \<lparr>zipcodes = [sf_row, ny_row], competitors = [lost_shop]\<rparr>
     widget (zip_request ''94103'') = Inl IndexError"
proof -
  let ?db = "\<lparr>zipcodes = [sf_row, ny_row], competitors = [lost_shop]\<rparr>"
  have g: "GET (zip_request ''94103'') ''zip'' = Some ''94103''"
    by (simp add: zip_request_def)
  have n: "''94103'' \<noteq> []"
    by simp
  have s: "first_row (filter_zip (zipcodes ?db) ''94103'') = Inr sf_row"
    by (simp add: lookup_defs sample_defs)
  have c: "competitors ?db = lost_shop # []"
    by simp
  have e: "filter_zip (zipcodes ?db) (competitor_zip lost_shop) = []"
    by (simp add: lookup_defs sample_defs)
  show ?thesis
    using g s e
      unmapped_competitor_raises [where miles = taxicab_miles and db = ?db and self = widget,
        OF g n s c e]
    by simp
qed

text \<open>
  C8.  A non-empty shopper zip without a row in the zip table makes \<^verbatim>\<open>adjusted_price\<close>
  fail: the first-row access raises (the lookup failure that the specification names
  \<^verbatim>\<open>NotFoundError\<close>), and no price is returned.
\<close>

theorem unknown_shopper_zip_raises:
  assumes "GET request ''zip'' = Some z" and "z \<noteq> []"
    and "filter_zip (zipcodes db) z = []"
  shows "adjusted_price miles db self request = Inl IndexError"
  using assms
  by (simp add: adjusted_price_def GET_get_def GET_getitem_def first_row_def)

theorem unknown_shopper_zip_raises_witness:
  "GET (zip_request ''99999'') ''zip'' = Some ''99999'' \<and>
   filter_zip [sf_row, ny_row] ''99999'' = [] \<and>
   adjusted_price taxicab_miles \<lparr>zipcodes = [sf_row, ny_row], competitors = [sf_shop]\<rparr>
     widget (zip_request ''99999'') = Inl IndexError"
proof -
  let ?db = "\<lparr>zipcodes = [sf_row, ny_row], competitors = [sf_shop]\<rparr>"
  have g: "GET (zip_request ''99999'') ''zip'' = Some ''99999''"
    by (simp add: zip_request_def)
  have n: "''99999'' \<noteq> []"
    by simp
  have e: "filter_zip (zipcodes ?db) ''99999'' = []"
    by (simp add: lookup_defs sample_defs)
  show ?thesis
    using g e
      unknown_shopper_zip_raises [where miles = taxicab_miles and db = ?db and self = widget,
        OF g n e]
    by simp
qed

subsection \<open>Duplicate rows of the zip table\<close>

text \<open>
  C9.  Every resolution of a zip takes the first row with that zip.  Let \<open>r\<close> be the first
  row of the table with its zip (no row of \<open>pre\<close> has it) and \<open>d\<close> a later row with the
  same zip.  Then the lookup of that zip yields \<open>r\<close>, not \<open>d\<close>; taking \<open>d\<close> out of the table
  changes no lookup, of whatever zip, the shopper's or a competitor's; and it does not
  change the computed price.
\<close>

theorem first_matching_row_is_used:
  assumes "\<forall>x \<in> set pre. zipcode_zip x \<noteq> zipcode_zip r"
    and "zipcode_zip d = zipcode_zip r"
  shows "first_row (filter_zip (pre @ r # mid @ d # post) (zipcode_zip r)) = Inr r \<and>
         first_row (filter_zip (pre @ r # mid @ d # post) z) =
           first_row (filter_zip (pre @ r # mid @ post) z) \<and>
         adjusted_price miles (db\<lparr>zipcodes := pre @ r # mid @ d # post\<rparr>) self request =
           adjusted_price miles (db\<lparr>zipcodes := pre @ r # mid @ post\<rparr>) self request"
proof -
  have dup: "\<exists>x \<in> set (pre @ r # mid). zipcode_zip x = zipcode_zip d"
    using assms(2) by auto
  have rows: "pre @ r # mid @ d # post = (pre @ r # mid) @ d # post"
    "pre @ r # mid @ post = (pre @ r # mid) @ post"
    by simp_all
  have "first_row (filter_zip (pre @ r # mid @ d # post) (zipcode_zip r)) = Inr r"
    by (rule first_row_first_match [OF assms(1)])
  moreover have "first_row (filter_zip (pre @ r # mid @ d # post) z) =
                 first_row (filter_zip (pre @ r # mid @ post) z)" for z
    unfolding rows by (rule first_row_later_duplicate [OF dup])
  moreover have "competitor_loop miles (pre @ r # mid @ d # post) co cs rate =
                 competitor_loop miles (pre @ r # mid @ post) co cs rate" for co cs rate
    unfolding rows by (rule competitor_loop_later_duplicate [OF dup])
  ultimately show ?thesis
    by (simp add: adjusted_price_def cong: sum.case_cong)
qed

theorem first_matching_row_is_used_witness:
  "zipcode_zip ny_row \<noteq> zipcode_zip sf_row \<and>
   zipcode_zip sf_row_again = zipcode_zip sf_row \<and>
   coordinate sf_row_again = coordinate ny_row \<and>
   first_row (filter_zip [ny_row, sf_row, sf_row_again] ''94103'') = Inr sf_row \<and>
   adjusted_price taxicab_miles
     \<lparr>zipcodes = [ny_row, sf_row, sf_row_again], competitors = [sf_shop]\<rparr>
     widget (zip_request ''94103'') =
   adjusted_price taxicab_miles
     \<lparr>zipcodes = [ny_row, sf_row], competitors = [sf_shop]\<rparr>
     widget (zip_request ''94103'') \<and>
   adjusted_price taxicab_miles
     \<lparr>zipcodes = [ny_row, sf_row, sf_row_again], competitors = [sf_shop]\<rparr>
     widget (zip_request ''94103'') =
   Inr \<lparr>dsign = False, dcoeff = 8000000000000000444089209850, dexp = - 26\<rparr>"
proof -
  let ?db = "\<lparr>zipcodes = [], competitors = [sf_shop]\<rparr>"
  have a: "\<forall>x \<in> set [ny_row]. zipcode_zip x \<noteq> zipcode_zip sf_row"
    by (simp add: sf_row_def ny_row_def)
  have b: "zipcode_zip sf_row_again = zipcode_zip sf_row"
    by (simp add: sf_row_def sf_row_again_def)
  have k: "coordinate sf_row_again = coordinate ny_row"
    by (simp add: coordinate_def ny_row_def sf_row_again_def)
  have z: "zipcode_zip sf_row = ''94103''"
    by (simp add: sf_row_def)
  have p: "adjusted_price taxicab_miles
             \<lparr>zipcodes = [ny_row, sf_row], competitors = [sf_shop]\<rparr>
             widget (zip_request ''94103'') =
           Inr (dec_mul (baseprice widget) (Decimal_from_float float_0_8))"
    by (simp add: adjusted_price_def lookup_defs sample_defs float_1_0_def)
  show ?thesis
    using a b k z p
      first_matching_row_is_used [where pre = "[ny_row]" and mid = "[]" and post = "[]"
        and miles = taxicab_miles and db = ?db and self = widget
        and request = "zip_request ''94103''" and z = "''94103''", OF a b]
    by (simp add: widget_discounted)
qed

subsection \<open>What the loop looks at\<close>

text \<open>
  C10.  The body of the loop runs at most once: on a non-empty list of competitors the loop
  does what it does on the first competitor alone, and two lists of competitors with the
  same first element give the same adjusted price.
\<close>

theorem price_depends_on_first_competitor_only:
  "competitor_loop miles rows co (c # cs) rate = competitor_loop miles rows co [c] rate \<and>
   adjusted_price miles (db\<lparr>competitors := c # cs\<rparr>) self request =
   adjusted_price miles (db\<lparr>competitors := c # cs'\<rparr>) self request"
  by (simp add: adjusted_price_def cong: sum.case_cong)

end
